theory Spec2Isabelle
  imports Complex_Main
begin

section \<open>Double-precision values\<close>

text \<open>
  The loop functions of \<^verbatim>\<open>gm2_ffunctions.cpp\<close> take and return C++ \<^verbatim>\<open>double\<close>s.
  A \<^verbatim>\<open>double\<close> is modelled as a real number or one of the three special values
  \<open>+inf\<close>, \<open>-inf\<close> and NaN, with the IEEE-754 rules for the special values: NaN
  propagates, \<open>inf - inf\<close>, \<open>0 * inf\<close>, \<open>0 / 0\<close> and \<open>inf / inf\<close> are NaN, every
  comparison with NaN is false.  Finite arithmetic is exact: rounding, overflow and
  underflow are not modelled, and there is a single zero (a non-zero finite value
  divided by zero gives the infinity with the sign of the numerator, as for \<open>+0\<close>).
\<close>

datatype double = Fin real | PInf | MInf | NaN

instantiation double :: "{zero, one, plus, minus, uminus, times, inverse, abs, ord}"
begin

definition zero_double :: double where
  "zero_double = Fin 0"

definition one_double :: double where
  "one_double = Fin 1"

fun uminus_double :: "double \<Rightarrow> double" where
  "uminus_double (Fin a) = Fin (- a)"
| "uminus_double PInf = MInf"
| "uminus_double MInf = PInf"
| "uminus_double NaN = NaN"

fun plus_double :: "double \<Rightarrow> double \<Rightarrow> double" where
  "plus_double (Fin a) (Fin b) = Fin (a + b)"
| "plus_double NaN y = NaN"
| "plus_double x NaN = NaN"
| "plus_double PInf MInf = NaN"
| "plus_double MInf PInf = NaN"
| "plus_double PInf y = PInf"
| "plus_double MInf y = MInf"
| "plus_double (Fin a) y = y"

definition minus_double :: "double \<Rightarrow> double \<Rightarrow> double" where
  "minus_double x y = x + (- y)"

fun times_double :: "double \<Rightarrow> double \<Rightarrow> double" where
  "times_double (Fin a) (Fin b) = Fin (a * b)"
| "times_double NaN y = NaN"
| "times_double x NaN = NaN"
| "times_double (Fin a) y = (if a = 0 then NaN else if 0 < a then y else - y)"
| "times_double x (Fin b) = (if b = 0 then NaN else if 0 < b then x else - x)"
| "times_double PInf y = y"
| "times_double MInf y = - y"

fun divide_double :: "double \<Rightarrow> double \<Rightarrow> double" where
  "divide_double (Fin a) (Fin b) =
     (if b = 0 then (if a = 0 then NaN else if 0 < a then PInf else MInf)
      else Fin (a / b))"
| "divide_double NaN y = NaN"
| "divide_double x NaN = NaN"
| "divide_double (Fin a) y = Fin 0"
| "divide_double x (Fin b) = (if 0 \<le> b then x else - x)"
| "divide_double x y = NaN"

definition inverse_double :: "double \<Rightarrow> double" where
  "inverse_double x = Fin 1 div x"

fun abs_double :: "double \<Rightarrow> double" where
  "abs_double (Fin a) = Fin \<bar>a\<bar>"
| "abs_double NaN = NaN"
| "abs_double x = PInf"

fun less_double :: "double \<Rightarrow> double \<Rightarrow> bool" where
  "less_double (Fin a) (Fin b) = (a < b)"
| "less_double MInf (Fin b) = True"
| "less_double MInf PInf = True"
| "less_double (Fin a) PInf = True"
| "less_double x y = False"

definition less_eq_double :: "double \<Rightarrow> double \<Rightarrow> bool" where
  "less_eq_double x y = (x < y \<or> (x = y \<and> x \<noteq> NaN))"

instance ..

end

instance double :: semigroup_add
proof
  fix a b c :: double
  show "a + b + c = a + (b + c)"
    by (cases a; cases b; cases c) simp_all
qed

instance double :: power ..

instance double :: numeral ..

subsection \<open>The functions of \<^verbatim>\<open><cmath>\<close> and \<^verbatim>\<open><algorithm>\<close> that the code calls\<close>

text \<open>\<^verbatim>\<open>std::max(a, b)\<close> is \<^verbatim>\<open>(a < b) ? b : a\<close>.\<close>

definition std_max :: "double \<Rightarrow> double \<Rightarrow> double" where
  "std_max a b = (if a < b then b else a)"

text \<open>\<^verbatim>\<open>std::log\<close>: \<open>-inf\<close> at zero, NaN below zero.\<close>

fun std_log :: "double \<Rightarrow> double" where
  "std_log (Fin a) = (if a < 0 then NaN else if a = 0 then MInf else Fin (ln a))"
| "std_log PInf = PInf"
| "std_log MInf = NaN"
| "std_log NaN = NaN"

fun std_sqrt :: "double \<Rightarrow> double" where
  "std_sqrt (Fin a) = (if a < 0 then NaN else Fin (sqrt a))"
| "std_sqrt PInf = PInf"
| "std_sqrt MInf = NaN"
| "std_sqrt NaN = NaN"

fun std_acos :: "double \<Rightarrow> double" where
  "std_acos (Fin a) = (if - 1 \<le> a \<and> a \<le> 1 then Fin (arccos a) else NaN)"
| "std_acos x = NaN"

fun std_asin :: "double \<Rightarrow> double" where
  "std_asin (Fin a) = (if - 1 \<le> a \<and> a \<le> 1 then Fin (arcsin a) else NaN)"
| "std_asin x = NaN"

text \<open>\<^verbatim>\<open>std::atan2(y, x)\<close>, the angle of the point \<open>(x, y)\<close> in \<open>[-pi, pi]\<close>.\<close>

fun std_atan2 :: "double \<Rightarrow> double \<Rightarrow> double" where
  "std_atan2 (Fin y) (Fin x) =
     (if 0 < x then Fin (arctan (y / x))
      else if x < 0 then (if 0 \<le> y then Fin (arctan (y / x) + pi) else Fin (arctan (y / x) - pi))
      else if 0 < y then Fin (pi / 2) else if y < 0 then Fin (- pi / 2) else Fin 0)"
| "std_atan2 NaN x = NaN"
| "std_atan2 y NaN = NaN"
| "std_atan2 (Fin y) PInf = Fin 0"
| "std_atan2 (Fin y) MInf = (if 0 \<le> y then Fin pi else Fin (- pi))"
| "std_atan2 PInf (Fin x) = Fin (pi / 2)"
| "std_atan2 MInf (Fin x) = Fin (- pi / 2)"
| "std_atan2 PInf PInf = Fin (pi / 4)"
| "std_atan2 MInf PInf = Fin (- pi / 4)"
| "std_atan2 PInf MInf = Fin (3 * pi / 4)"
| "std_atan2 MInf MInf = Fin (- 3 * pi / 4)"

text \<open>\<^verbatim>\<open>std::pow(x, n)\<close> with an \<^verbatim>\<open>int\<close> exponent.\<close>

definition std_pow :: "double \<Rightarrow> int \<Rightarrow> double" where
  "std_pow x n = (if n = 0 then 1 else if 0 < n then x ^ nat n else 1 / x ^ nat (- n))"

subsection \<open>Diagnostics\<close>

text \<open>
  Modelled from the spec: the macro \<^verbatim>\<open>ERROR\<close>, which \<^verbatim>\<open>gm2_log.hpp\<close> defines and
  whose text is not available.  The specification describes it as a side-channel
  diagnostic of the form \<^verbatim>\<open>ERROR: <message>\<close>.  A function that may report returns
  the list of the diagnostics it has emitted together with its value.
\<close>

definition ERROR :: "string \<Rightarrow> string list" where
  "ERROR message = [''ERROR: '' @ message]"

section \<open>The loop functions of \<^verbatim>\<open>src/gm2_ffunctions.cpp\<close>\<close>

text \<open>
  \<^verbatim>\<open>dilog\<close> and \<^verbatim>\<open>clausen_2\<close> are declared in \<^verbatim>\<open>gm2_dilog.hpp\<close> and implemented
  elsewhere.  They are left open: every function that calls them takes them as its
  first arguments, and what is proved holds whatever they compute.
\<close>

subsection \<open>Constants and numeric helpers\<close>

text \<open>\<^verbatim>\<open>std::numeric_limits<double>::epsilon()\<close>\<close>

definition epsilon :: double where
  "epsilon = Fin (1 / 2 ^ 52)"

definition eps :: double where
  "eps = 10 * epsilon"

text \<open>\<^verbatim>\<open>std::pow(eps, 0.25)\<close>\<close>

definition qdrt_eps :: double where
  "qdrt_eps = Fin (root 4 (10 / 2 ^ 52))"

definition sqr :: "double \<Rightarrow> double" where
  "sqr x = x * x"

definition pow3 :: "double \<Rightarrow> double" where
  "pow3 x = x * x * x"

definition pow4 :: "double \<Rightarrow> double" where
  "pow4 x = sqr (sqr x)"

definition is_zero :: "double \<Rightarrow> double \<Rightarrow> bool" where
  "is_zero a prec = (\<bar>a\<bar> < prec)"

definition is_equal :: "double \<Rightarrow> double \<Rightarrow> double \<Rightarrow> bool" where
  "is_equal a b prec =
     (let max = std_max \<bar>a\<bar> \<bar>b\<bar> in is_zero (a - b) (prec * (1 + max)))"

text \<open>The two overloads of \<^verbatim>\<open>sort\<close> return the reordered arguments.\<close>

definition sort2 :: "double \<Rightarrow> double \<Rightarrow> double \<times> double" where
  "sort2 x y = (if x > y then (y, x) else (x, y))"

definition sort3 :: "double \<Rightarrow> double \<Rightarrow> double \<Rightarrow> double \<times> double \<times> double" where
  "sort3 x y z =
     (let (x, y) = (if x > y then (y, x) else (x, y));
          (y, z) = (if y > z then (z, y) else (y, z));
          (x, y) = (if x > y then (y, x) else (x, y))
      in (x, y, z))"

subsection \<open>\<open>Phi\<close>\<close>

definition lambda_2 :: "double \<Rightarrow> double \<Rightarrow> double" where
  "lambda_2 u v = sqr (1 - u - v) - 4 * u * v"

definition l00 :: "double \<Rightarrow> double \<Rightarrow> double" where
  "l00 u v =
     v * (1 + u * (1 + u * (1 + u))
          + v * (u * (1 + u * (3 + 6 * u)) + u * (1 + u * (6 + 20 * u)) * v))"

definition l0v :: "double \<Rightarrow> double \<Rightarrow> double" where
  "l0v u v =
     (let a = 1 - v; a2 = a * a; a3 = a2 * a
      in u * (0.5 * (1 + (1 + v) / a) + u * (v + u * v * (1 + v) / a2) / a3))"

definition lv0 :: "double \<Rightarrow> double \<Rightarrow> double" where
  "lv0 u v =
     (let a = 1 - v; a2 = a * a; a3 = a2 * a
      in v + u * (0.5 * (- 1 + (1 + v) / a) + u * (v + u * v * (1 + v) / a2) / a3))"

definition luv :: "double \<Rightarrow> double \<Rightarrow> double \<Rightarrow> double \<times> double" where
  "luv lambda u v =
     (if v < qdrt_eps then (l00 u v, l00 v u)
      else if u < qdrt_eps then (l0v u v, lv0 u v)
      else (0.5 * (1 - lambda + u - v), 0.5 * (1 - lambda - u + v)))"

definition phi_pos :: "(double \<Rightarrow> double) \<Rightarrow> double \<Rightarrow> double \<Rightarrow> double" where
  "phi_pos dilog u v =
     (if is_equal u 1 eps \<and> is_equal v 1 eps then 2.343907238689459
      else
        let pi23 = 3.2898681336964529;
            lambda = std_sqrt (lambda_2 u v)
        in if is_equal u v eps then
             (let x = (if u < qdrt_eps then u * (1 + u * (1 + u * (2 + 5 * u)))
                       else 0.5 * (1 - lambda))
              in (- sqr (std_log u) + 2 * sqr (std_log x) - 4 * dilog x + pi23) / lambda)
           else
             (let (x, y) = luv lambda u v
              in (- std_log u * std_log v + 2 * std_log x * std_log y
                  - 2 * dilog x - 2 * dilog y + pi23) / lambda))"

definition cl2acos :: "(double \<Rightarrow> double) \<Rightarrow> double \<Rightarrow> double" where
  "cl2acos clausen_2 x = clausen_2 (2 * std_acos x)"

definition phi_neg_1v :: "(double \<Rightarrow> double) \<Rightarrow> double \<Rightarrow> double" where
  "phi_neg_1v clausen_2 v =
     2 * (cl2acos clausen_2 (1 - 0.5 * v) + 2 * cl2acos clausen_2 (0.5 * std_sqrt v))"

definition phi_neg :: "(double \<Rightarrow> double) \<Rightarrow> double \<Rightarrow> double \<Rightarrow> double" where
  "phi_neg clausen_2 u v =
     (if is_equal u 1 eps \<and> is_equal v 1 eps then 2.343907238689459
      else
        let lambda = std_sqrt (- lambda_2 u v)
        in if is_equal u v eps then
             4 * clausen_2 (2 * std_asin (std_sqrt (0.25 / u))) / lambda
           else if is_equal u 1 eps then phi_neg_1v clausen_2 v / lambda
           else if is_equal v 1 eps then phi_neg_1v clausen_2 u / lambda
           else
             (let sqrtu = std_sqrt u; sqrtv = std_sqrt v
              in 2 * (cl2acos clausen_2 (0.5 * (1 + u - v) / sqrtu)
                      + cl2acos clausen_2 (0.5 * (1 - u + v) / sqrtv)
                      + cl2acos clausen_2 (0.5 * (- 1 + u + v) / (sqrtu * sqrtv))) / lambda))"

definition phi_uv :: "(double \<Rightarrow> double) \<Rightarrow> (double \<Rightarrow> double) \<Rightarrow> double \<Rightarrow> double \<Rightarrow> double" where
  "phi_uv dilog clausen_2 u v =
     (let lambda = lambda_2 u v
      in if is_zero lambda eps then 0
         else if lambda > 0 then
           (if u \<le> 1 \<and> v \<le> 1 then phi_pos dilog u v
            else
              let vou = v / u
              in if u \<ge> 1 \<and> vou \<le> 1 then (let oou = 1 / u in phi_pos dilog oou vou * oou)
                 else (let oov = 1 / v in phi_pos dilog oov (1 / vou) * oov))
         else phi_neg clausen_2 u v)"

definition Phi :: "(double \<Rightarrow> double) \<Rightarrow> (double \<Rightarrow> double) \<Rightarrow> double \<Rightarrow> double \<Rightarrow> double \<Rightarrow> double" where
  "Phi dilog clausen_2 x y z =
     (let (x, y, z) = sort3 x y z;
          u = x / z; v = y / z
      in phi_uv dilog clausen_2 u v * z * lambda_2 u v / 2)"

subsection \<open>One-argument form factors\<close>

definition F1C :: "double \<Rightarrow> double" where
  "F1C x =
     (if is_zero x eps then 4.0
      else
        let d = x - 1.0
        in if is_equal x 1.0 0.03 then
             1.0 + d * (- 0.6 + d * (0.4 + d * (- 2.0 / 7.0
               + d * (3.0 / 14.0 + d * (- 1.0 / 6.0
               + 2.0 / 15.0 * d)))))
           else 2.0 / pow4 d * (2.0 + x * (3.0 + 6.0 * std_log x + x * (- 6.0 + x))))"

definition F2C :: "double \<Rightarrow> double" where
  "F2C x =
     (if is_zero x eps then 0.0
      else if is_equal x 1.0 0.03 then
        (let d = x - 1.0
         in 1.0 + d * (- 0.75 + d * (0.6 + d * (- 0.5 + d * (3.0 / 7.0
              + d * (- 0.375 + 1.0 / 3.0 * d))))))
      else 3.0 / (2.0 * pow3 (1.0 - x)) * (- 3.0 - 2.0 * std_log x + x * (4.0 - x)))"

definition F3C :: "(double \<Rightarrow> double) \<Rightarrow> double \<Rightarrow> double" where
  "F3C dilog x =
     (let d = x - 1.0
      in if is_equal x 1.0 0.03 then
           1.0
           + d * (1059.0 / 1175.0
           + d * (- 4313.0 / 3525.0
           + d * (70701.0 / 57575.0
           + d * (- 265541.0 / 230300.0
           + d * (48919.0 / 46060.0
           - 80755.0 / 82908.0 * d)))))
         else
           let lx = std_log x; x2 = sqr x
           in 4.0 / (141.0 * pow4 d) * (
                (1.0 - x) * (151.0 * x2 - 335.0 * x + 592.0)
                + 6.0 * (21.0 * pow3 x - 108.0 * x2 - 93.0 * x + 50.0) * lx
                - 54.0 * x * (x2 - 2.0 * x - 2.0) * sqr lx
                - 108.0 * x * (x2 - 2.0 * x + 12.0) * dilog (1.0 - x)))"

definition F4C :: "(double \<Rightarrow> double) \<Rightarrow> double \<Rightarrow> double" where
  "F4C dilog x =
     (if is_zero x eps then 0.0
      else if is_equal x 1.0 0.03 then
        (let d = x - 1.0
         in 1.0
            + d * (- 45.0 / 122.0
            + d * (941.0 / 6100.0
            + d * (- 17.0 / 305.0
            + d * (282.0 / 74725.0
            + d * (177.0 / 6832.0 - 47021.0 / 1076040.0 * d))))))
      else
        let lx = std_log x; x2 = sqr x
        in - 9.0 / (122.0 * pow3 (1.0 - x)) * (
             8.0 * (x2 - 3.0 * x + 2.0)
             + (11.0 * x2 - 40.0 * x + 5.0) * lx
             - 2.0 * (x2 - 2.0 * x - 2.0) * sqr lx
             - 4.0 * (x2 - 2.0 * x + 9.0) * dilog (1.0 - x)))"

definition F1N :: "double \<Rightarrow> double" where
  "F1N x =
     (if is_zero x eps then 2.0
      else
        let d = x - 1.0
        in if is_equal x 1.0 0.03 then
             1.0 + d * (- 0.4 + d * (0.2 + d * (- 4.0 / 35.0
               + d * (1.0 / 14.0 + d * (- 1.0 / 21.0 + 1.0 / 30.0 * d)))))
           else 2.0 / pow4 d * (1.0 + x * (- 6.0 + x * (3.0 - 6.0 * std_log x + 2.0 * x))))"

definition F2N :: "double \<Rightarrow> double" where
  "F2N x =
     (if is_zero x eps then 3.0
      else if is_equal x 1.0 0.04 then
        (let d = x - 1.0
         in 1 + d * (- 0.5 + d * (0.3 + d * (- 0.2
              + d * (1.0 / 7.0 + d * (- 3.0 / 28.0 + 1.0 / 12.0 * d))))))
      else 3.0 / pow3 (1.0 - x) * (1.0 + x * (2.0 * std_log x - x)))"

definition F3N :: "(double \<Rightarrow> double) \<Rightarrow> double \<Rightarrow> double" where
  "F3N dilog x =
     (if is_zero x eps then 8.0 / 105.0
      else
        let d = x - 1.0
        in if is_equal x 1.0 0.03 then
             1.0 + d * (76 / 875.0 + d * (- 431 / 2625.0 + d * (5858 / 42875.0
               + d * (- 3561 / 34300.0 + d * (23 / 294.0 - 4381 / 73500.0 * d)))))
           else
             let x2 = sqr x
             in 4.0 / 105.0 / pow4 d * (
                  (1.0 - x) * (- 97.0 * x2 - 529.0 * x + 2.0)
                  + 6.0 * x2 * (13.0 * x + 81.0) * std_log x
                  + 108.0 * x * (7.0 * x + 4.0) * dilog (1.0 - x)))"

definition F4N :: "(double \<Rightarrow> double) \<Rightarrow> double \<Rightarrow> double" where
  "F4N dilog x =
     (let PI2 = 9.8696044010893586
      in if is_zero x eps then - 3.0 / 4.0 * (- 9.0 + PI2)
         else if is_equal x 1.0 0.03 then
           (let d = x - 1.0
            in 1.0 + sqr d * (- 111.0 / 800.0 + d * (59.0 / 400.0 + d * (- 129.0 / 980.0
                 + d * (177.0 / 1568.0 - 775.0 / 8064.0 * d)))))
         else
           - 2.25 / pow3 (1.0 - x) * (
             (x + 3.0) * (x * std_log x + x - 1.0)
             + (6.0 * x + 2.0) * dilog (1.0 - x)))"

definition G3 :: "double \<Rightarrow> double" where
  "G3 x =
     (if is_equal x 1.0 0.01 then
        (let d = x - 1.0
         in 1.0 / 3.0 + d * (- 0.25 + d * (0.2 + (- 1.0 / 6.0 + d / 7.0) * d)))
      else 1.0 / (2.0 * pow3 (x - 1.0)) * ((x - 1.0) * (x - 3.0) + 2.0 * std_log x))"

definition G4 :: "double \<Rightarrow> double" where
  "G4 x =
     (if is_equal x 1.0 0.01 then
        (let d = x - 1.0
         in 1.0 / 6.0 + d * (- 1.0 / 12.0 + d * (0.05 + (- 1.0 / 30.0 + d / 42.0) * d)))
      else 1.0 / (2.0 * pow3 (x - 1.0)) * ((x - 1.0) * (x + 1.0) - 2.0 * x * std_log x))"

subsection \<open>\<open>Fb\<close> and \<open>Fa\<close>\<close>

definition Fb11 :: "double \<Rightarrow> double \<Rightarrow> double" where
  "Fb11 x y =
     (let x1 = x - 1.0; y1 = y - 1.0
      in 1.0 / 12.0 + (- 0.05 + y1 / 30) * y1
         + x1 * (- 0.05 + (1.0 / 30.0 - y1 / 42.0) * y1
         + x1 * (1.0 / 30.0 + (- 1.0 / 42.0 + y1 / 56.0) * y1)))"

definition Fb1 :: "double \<Rightarrow> double \<Rightarrow> double" where
  "Fb1 x y =
     (let x1 = x - 1.0; y1 = y - 1.0; lx = std_log x;
          x14 = pow4 x1; x15 = x14 * x1; x16 = x15 * x1
      in (2.0 + x * (3.0 + 6.0 * lx + x * (- 6.0 + x))) / (6.0 * x14)
         + y1 * (3.0 + x * (10.0 + 12.0 * lx + x * (- 18.0 + x * (6.0 - x)))) / (12.0 * x15)
         + sqr y1 * (12.0 + x * (65.0 + 60.0 * lx + x * (- 120.0 + x * (60.0 + x * (- 20.0 + 3.0 * x)))))
             / (60 * x16))"

definition Fbx :: "double \<Rightarrow> double \<Rightarrow> double" where
  "Fbx x y =
     (let x1 = x - 1.0; d = y - x; lx = std_log x;
          x14 = pow4 x1; x15 = x14 * x1; x16 = x15 * x1
      in (- 5.0 - 2.0 * lx + x * (4.0 - 4.0 * lx + x)) / (2.0 * x14)
         - d * (- 1.0 + x * (- 9.0 - 6.0 * lx + x * (9.0 - 6.0 * lx + x))) / (2.0 * x15 * x)
         - sqr d * (- 1.0 + x * (12.0 + x * (36.0 + 36.0 * lx + x * (- 44.0 + 24.0 * lx - 3.0 * x))))
             / (6 * x16 * sqr x))"

definition Fb :: "double \<Rightarrow> double \<Rightarrow> string list \<times> double" where
  "Fb x y =
     (if x < 0 \<or> y < 0 then (ERROR ''Fb: x and y must not be negative!'', NaN)
      else
        let (x, y) = sort2 x y
        in ([],
            if is_zero y eps then 0
            else if is_equal x 1.0 0.01 \<and> is_equal y 1.0 0.01 then Fb11 x y
            else if is_equal x 1.0 0.01 then Fb1 y x
            else if is_equal y 1.0 0.01 then Fb1 x y
            else if is_equal x y 0.01 then Fbx x y
            else - (G4 x - G4 y) / (x - y)))"

definition Fa11 :: "double \<Rightarrow> double \<Rightarrow> double" where
  "Fa11 x y =
     (let x1 = x - 1.0; y1 = y - 1.0
      in 0.25 + (- 0.2 + y1 / 6) * y1
         + x1 * (- 0.2 + (1.0 / 6.0 - y1 / 7.0) * y1)
         + sqr x1 * (1.0 / 6.0 + (- 1.0 / 7.0 + y1 / 8.0) * y1))"

definition Fa1 :: "double \<Rightarrow> double \<Rightarrow> double" where
  "Fa1 x y =
     (let x1 = x - 1.0; y1 = y - 1.0; lx = std_log x;
          x14 = pow4 x1; x15 = x14 * x1; x16 = x15 * x1
      in (- 11.0 - 6.0 * lx + x * (18.0 + x * (- 9.0 + 2.0 * x))) / (6.0 * x14)
         + y1 * (- 25.0 - 12.0 * lx + x * (48.0 + x * (- 36.0 + x * (16.0 - 3.0 * x)))) / (12.0 * x15)
         + sqr y1 * (- 137.0 - 60.0 * lx + x * (300.0 + x * (- 300.0 + x * (200.0 + x * (- 75.0 + 12.0 * x)))))
             / (60.0 * x16))"

definition Fax :: "double \<Rightarrow> double \<Rightarrow> double" where
  "Fax x y =
     (let x1 = x - 1.0; d = y - x; lx = std_log x;
          x14 = pow4 x1; x15 = x14 * x1; x16 = x15 * x1;
          x2 = sqr x; x3 = x2 * x
      in (2.0 + x * (3.0 + 6.0 * lx + x * (- 6.0 + x))) / (2.0 * x14 * x)
         - d * (- 1.0 + x * (8.0 + x * (12.0 * lx + x * (- 8.0 + x)))) / (2.0 * x15 * x2)
         - sqr d * (- 2.0 + x * (15.0 + x * (- 60.0 + x * (20.0 - 60.0 * lx + x * (30.0 - 3.0 * x)))))
             / (6.0 * x16 * x3))"

definition Fa :: "double \<Rightarrow> double \<Rightarrow> string list \<times> double" where
  "Fa x y =
     (if x < 0 \<or> y < 0 then (ERROR ''Fa: x and y must not be negative!'', NaN)
      else
        let (x, y) = sort2 x y
        in ([],
            if is_zero y eps then 0
            else if is_equal x 1.0 0.001 \<and> is_equal y 1.0 0.001 then Fa11 x y
            else if is_equal x 1.0 0.001 then Fa1 y x
            else if is_equal y 1.0 0.001 then Fa1 x y
            else if is_equal x y 0.001 then Fax x y
            else - (G3 x - G3 y) / (x - y)))"

subsection \<open>\<open>f_PS\<close> and the functions built on it\<close>

definition f_PS :: "(double \<Rightarrow> double) \<Rightarrow> (double \<Rightarrow> double) \<Rightarrow> double \<Rightarrow> string list \<times> double" where
  "f_PS dilog clausen_2 z =
     (if z < 0.0 then (ERROR ''f_PS: z must not be negative!'', NaN)
      else if z = 0.0 then ([], 0.0)
      else if z < 0.25 then
        (let y = std_sqrt (1 - 4 * z);
             c = - 9.8696044010893586;
             q = (1 + y) / (1 - y);
             lq = std_log q
         in ([], z / y * (4 * dilog (1 + q) - lq * (2 * std_log z - lq) + c)))
      else if z = 0.25 then ([], 1.3862943611198906)
      else
        let y = std_sqrt (- 1 + 4 * z);
            theta = std_atan2 y (2 * z - 1)
        in ([], 4 * z / y * clausen_2 theta))"

definition f_S :: "(double \<Rightarrow> double) \<Rightarrow> (double \<Rightarrow> double) \<Rightarrow> double \<Rightarrow> string list \<times> double" where
  "f_S dilog clausen_2 z =
     (if z < 0.0 then (ERROR ''f_S: z must not be negative!'', NaN)
      else if z = 0.0 then ([], 0.0)
      else
        let (out, fps) = f_PS dilog clausen_2 z
        in (out, (2 * z - 1) * fps - 2 * z * (2 + std_log z)))"

definition f_sferm :: "(double \<Rightarrow> double) \<Rightarrow> (double \<Rightarrow> double) \<Rightarrow> double \<Rightarrow> string list \<times> double" where
  "f_sferm dilog clausen_2 z =
     (if z < 0.0 then (ERROR ''f_sferm: z must not be negative!'', NaN)
      else if z = 0.0 then ([], 0.0)
      else
        let (out, fps) = f_PS dilog clausen_2 z
        in (out, 0.5 * z * (2 + std_log z - fps)))"

definition F1 :: "(double \<Rightarrow> double) \<Rightarrow> (double \<Rightarrow> double) \<Rightarrow> double \<Rightarrow> string list \<times> double" where
  "F1 dilog clausen_2 w =
     (if w < 0.0 then (ERROR ''F1: w must not be negative!'', NaN)
      else if w = 0.0 then ([], 0.0)
      else if w = 0.25 then ([], - 0.5)
      else
        let (out, fps) = f_PS dilog clausen_2 w
        in (out, (w - 0.5) * fps - w * (2 + std_log w)))"

definition F1t :: "(double \<Rightarrow> double) \<Rightarrow> (double \<Rightarrow> double) \<Rightarrow> double \<Rightarrow> string list \<times> double" where
  "F1t dilog clausen_2 w =
     (let (out, fps) = f_PS dilog clausen_2 w in (out, 0.5 * fps))"

definition F2 :: "(double \<Rightarrow> double) \<Rightarrow> (double \<Rightarrow> double) \<Rightarrow> double \<Rightarrow> string list \<times> double" where
  "F2 dilog clausen_2 w =
     (if w < 0.0 then (ERROR ''F2: w must not be negative!'', NaN)
      else if w = 0.25 then ([], - 0.38629436111989062)
      else
        let (out, fps) = f_PS dilog clausen_2 w
        in (out, 1 + 0.5 * (std_log w - fps)))"

definition F3 :: "(double \<Rightarrow> double) \<Rightarrow> (double \<Rightarrow> double) \<Rightarrow> double \<Rightarrow> string list \<times> double" where
  "F3 dilog clausen_2 w =
     (if w < 0.0 then (ERROR ''F3: w must not be negative!'', NaN)
      else if w = 0.25 then ([], 19.0 / 4.0)
      else
        let (out, fps) = f_PS dilog clausen_2 w
        in (out, (0.5 + 7.5 * w) * (2 + std_log w) + (4.25 - 7.5 * w) * fps))"

section \<open>The older copy of \<^verbatim>\<open>gm2_ffunctions.cpp\<close>\<close>






definition Fb_legacy :: "double \<Rightarrow> double \<Rightarrow> double" where
  "Fb_legacy x y =
     (if (is_zero x eps \<and> is_zero y eps) \<or> is_zero x eps \<or> is_zero y eps then 0.0
      else if is_equal x 1.0 0.01 \<and> is_equal y 1.0 0.01 then Fb11 x y
      else if is_equal x 1.0 0.01 then Fb1 y x
      else if is_equal y 1.0 0.01 then Fb1 x y
      else if is_equal x y 0.01 then Fbx x y
      else - (G4 x - G4 y) / (x - y))"

definition Fa_legacy :: "double \<Rightarrow> double \<Rightarrow> double" where
  "Fa_legacy x y =
     (if (is_zero x eps \<and> is_zero y eps) \<or> is_zero x eps \<or> is_zero y eps then 0.0
      else if is_equal x 1.0 0.001 \<and> is_equal y 1.0 0.001 then Fa11 x y
      else if is_equal x 1.0 0.001 then Fa1 y x
      else if is_equal y 1.0 0.001 then Fa1 x y
      else if is_equal x y 0.001 then Fax x y
      else - (G3 x - G3 y) / (x - y))"

subsection \<open>\<open>Gn\<close>\<close>

text \<open>
  \<^verbatim>\<open>boost::numeric::odeint::integrate\<close> is a library function and a parameter here:
  given the system, the initial state, the bounds and the initial step, the call comes
  back either with an exception (\<open>Inl\<close>) or with the final state (\<open>Inr\<close>).  The
  wrapper \<^verbatim>\<open>integrate\<close> of the file builds the system from the integrand and returns
  the final state; an exception of the library passes through it.
\<close>

type_synonym 'e odeint =
  "(double \<Rightarrow> double \<Rightarrow> double) \<Rightarrow> double \<Rightarrow> double \<Rightarrow> double \<Rightarrow> double \<Rightarrow> 'e + double"

definition integrate :: "'e odeint \<Rightarrow> (double \<Rightarrow> double) \<Rightarrow> double \<Rightarrow> double \<Rightarrow> double \<Rightarrow> 'e + double" where
  "integrate odeint_integrate fn start stop dt =
     (let f = (\<lambda>state x. fn x);
          x0 = start
      in odeint_integrate f x0 start stop dt)"

definition G :: "double \<Rightarrow> double \<Rightarrow> double \<Rightarrow> double" where
  "G wa wb x =
     std_log ((wa * x + wb * (1 - x)) / (x * (1 - x))) / (x * (1 - x) - wa * x - wb * (1 - x))"

text \<open>
  \<^verbatim>\<open>res\<close> is initialised to a quiet NaN; the \<^verbatim>\<open>try\<close> block calls \<^verbatim>\<open>integrate\<close> as a
  statement, and \<^verbatim>\<open>catch (...)\<close> swallows whatever it throws.
\<close>

definition Gn :: "'e odeint \<Rightarrow> double \<Rightarrow> double \<Rightarrow> int \<Rightarrow> double" where
  "Gn odeint_integrate wa wb n =
     (let fn = (\<lambda>x. std_pow x n * G wa wb x);
          res = NaN
      in case integrate odeint_integrate fn (0.0 + eps) (1.0 - eps) eps of
           Inl exception \<Rightarrow> res
         | Inr discarded \<Rightarrow> res)"

section \<open>The range of a double, and the closed forms on the reals\<close>

text \<open>
  \<^verbatim>\<open>std::numeric_limits<double>::max()\<close> and \<^verbatim>\<open>std::numeric_limits<double>::min()\<close>,
  the largest finite and the smallest normal \<^verbatim>\<open>double\<close>.  The arithmetic above does
  not overflow; a statement about a computed value is made for arguments that keep
  every intermediate result of the code between these two bounds.
\<close>

definition DBL_MAX :: real where
  "DBL_MAX = (2 - 1 / 2 ^ 52) * 2 ^ 1023"

definition DBL_MIN :: real where
  "DBL_MIN = 1 / 2 ^ 1022"

text \<open>
  The closed form in the last branch of \<open>F1C\<close>, \<open>F2C\<close>, \<open>F4C\<close>, \<open>F1N\<close>, \<open>F2N\<close>,
  \<open>F3N\<close> and \<open>F4N\<close>, read as a function on the reals, so that its behaviour for
  \<open>x\<close> tending to 0 can be stated.  \<open>d\<close> is the real function that \<open>dilog\<close>
  computes.  Lemma \<open>closed_forms_computed\<close> below shows that each function returns
  the value of its closed form for every argument between \<open>eps\<close> and 0.9.
\<close>

definition F1C_closed :: "real \<Rightarrow> real" where
  "F1C_closed x = 2 / (x - 1) ^ 4 * (2 + x * (3 + 6 * ln x + x * (- 6 + x)))"

definition F2C_closed :: "real \<Rightarrow> real" where
  "F2C_closed x = 3 / (2 * (1 - x) ^ 3) * (- 3 - 2 * ln x + x * (4 - x))"

definition F4C_closed :: "(real \<Rightarrow> real) \<Rightarrow> real \<Rightarrow> real" where
  "F4C_closed d x =
     - 9 / (122 * (1 - x) ^ 3) * (
       8 * (x * x - 3 * x + 2)
       + (11 * (x * x) - 40 * x + 5) * ln x
       - 2 * (x * x - 2 * x - 2) * (ln x * ln x)
       - 4 * (x * x - 2 * x + 9) * d (1 - x))"

definition F1N_closed :: "real \<Rightarrow> real" where
  "F1N_closed x = 2 / (x - 1) ^ 4 * (1 + x * (- 6 + x * (3 - 6 * ln x + 2 * x)))"

definition F2N_closed :: "real \<Rightarrow> real" where
  "F2N_closed x = 3 / (1 - x) ^ 3 * (1 + x * (2 * ln x - x))"

definition F3N_closed :: "(real \<Rightarrow> real) \<Rightarrow> real \<Rightarrow> real" where
  "F3N_closed d x =
     4 / 105 / (x - 1) ^ 4 * (
       (1 - x) * (- 97 * (x * x) - 529 * x + 2)
       + 6 * (x * x) * (13 * x + 81) * ln x
       + 108 * x * (7 * x + 4) * d (1 - x))"

definition F4N_closed :: "(real \<Rightarrow> real) \<Rightarrow> real \<Rightarrow> real" where
  "F4N_closed d x =
     - 2.25 / (1 - x) ^ 3 * (
       (x + 3) * (x * ln x + x - 1)
       + (6 * x + 2) * d (1 - x))"

section \<open>Evaluation rules for doubles\<close>

lemma numeral_double: "(numeral n :: double) = Fin (numeral n)"
  by (induction n) (simp_all only: numeral.simps one_double_def plus_double.simps)

lemma power_double: "Fin a ^ n = Fin (a ^ n)"
  by (induction n) (simp_all add: one_double_def)

lemmas double_eval =
  zero_double_def one_double_def numeral_double power_double minus_double_def
  less_eq_double_def eps_def epsilon_def is_zero_def is_equal_def std_max_def
  sqr_def pow3_def pow4_def

lemma nonneg_not_NaN: "0 \<le> x \<Longrightarrow> x \<noteq> NaN"
  by (cases x) (simp_all add: double_eval)

lemma nonneg_not_less: "0 \<le> x \<Longrightarrow> \<not> x < (0 :: double)"
  by (cases x) (auto simp add: double_eval)

section \<open>\<open>Phi\<close> at a vanishing discriminant (C1)\<close>


















section \<open>\<open>Fa\<close> and \<open>Fb\<close> at zero arguments (C2)\<close>

text \<open>
  C2, as the code has it.  For non-negative arguments, \<open>Fa\<close> and \<open>Fb\<close> of
  \<^verbatim>\<open>src/gm2_ffunctions.cpp\<close> sort their arguments and test only the larger one with
  \<open>is_zero\<close>: they return 0 (and report nothing) when both arguments are within
  \<open>eps\<close> of zero.  The older copy of the file tests each argument, and returns 0 when
  either of them is.
\<close>

theorem Fa_Fb_zero_arguments:
  assumes "0 \<le> x" and "0 \<le> y"
  shows "(is_zero x eps \<and> is_zero y eps \<longrightarrow> Fa x y = ([], 0) \<and> Fb x y = ([], 0))
       \<and> (is_zero x eps \<or> is_zero y eps \<longrightarrow> Fa_legacy x y = 0 \<and> Fb_legacy x y = 0)"
proof -
  note neg = assms [THEN nonneg_not_less]
  have zero: "(0.0 :: double) = 0"
    by (simp add: zero_double_def numeral_double)
  have "is_zero (snd (sort2 x y)) eps" if "is_zero x eps" and "is_zero y eps"
    using that by (simp add: sort2_def)
  then have "is_zero x eps \<and> is_zero y eps \<longrightarrow> Fa x y = ([], 0) \<and> Fb x y = ([], 0)"
    using neg by (auto simp add: Fa_def Fb_def split: prod.splits)
  moreover have "is_zero x eps \<or> is_zero y eps \<longrightarrow> Fa_legacy x y = 0 \<and> Fb_legacy x y = 0"
    by (auto simp add: Fa_legacy_def Fb_legacy_def zero)
  ultimately show ?thesis ..
qed

theorem Fa_Fb_zero_arguments_witness:
  "(0 :: double) \<le> 0 \<and> is_zero 0 eps \<and> Fa 0 0 = ([], 0) \<and> Fb 0 0 = ([], 0)
   \<and> Fa_legacy 0 0 = 0 \<and> Fb_legacy 0 0 = 0"
proof -
  have h: "(0 :: double) \<le> 0" "is_zero 0 eps"
    by (simp_all add: double_eval)
  show ?thesis
    using Fa_Fb_zero_arguments [OF h(1) h(1)] h by blast
qed

text \<open>
  With one argument zero and the other not, the current code goes on to the quotient
  of \<open>G3\<close> or \<open>G4\<close>, which have no zero check: \<open>G3(0)\<close> is \<open>+inf\<close> through
  \<open>log(0)\<close>, and \<open>G4(0)\<close> is NaN through \<open>0 * log(0)\<close>.
\<close>

theorem Fa_Fb_one_zero_counterexample:
  "(0 :: double) \<le> 0 \<and> (0 :: double) \<le> 2 \<and> is_zero 0 eps
   \<and> Fa 0 2 = ([], PInf) \<and> Fb 0 2 = ([], NaN)
   \<and> Fa 0 2 \<noteq> ([], 0) \<and> Fb 0 2 \<noteq> ([], 0)"
  by (simp add: Fa_def Fb_def G3_def G4_def sort2_def double_eval)

section \<open>One-argument form factors at zero (C3)\<close>

subsection \<open>The closed forms are what the code computes\<close>

lemma generic_region:
  assumes "10 / 2 ^ 52 \<le> t" and "t \<le> 9 / 10"
  shows "\<not> is_zero (Fin t) eps"
    and "\<not> is_equal (Fin t) 1.0 0.03"
    and "\<not> is_equal (Fin t) 1.0 0.04"
    and "std_log (Fin t) = Fin (ln t)"
  using assms by (simp_all add: double_eval)

lemma closed_forms_computed:
  assumes "10 / 2 ^ 52 \<le> t" and "t \<le> 9 / 10" and "\<forall>s. dilog (Fin s) = Fin (d s)"
  shows "F1C (Fin t) = Fin (F1C_closed t)"
    and "F2C (Fin t) = Fin (F2C_closed t)"
    and "F4C dilog (Fin t) = Fin (F4C_closed d t)"
    and "F1N (Fin t) = Fin (F1N_closed t)"
    and "F2N (Fin t) = Fin (F2N_closed t)"
    and "F3N dilog (Fin t) = Fin (F3N_closed d t)"
    and "F4N dilog (Fin t) = Fin (F4N_closed d t)"
proof -
  note r = generic_region [OF assms(1,2)]
  have t: "t \<noteq> 1" "0 < t"
    using assms(1,2) by simp_all
  show "F1C (Fin t) = Fin (F1C_closed t)"
    using t by (simp add: F1C_def r F1C_closed_def) (simp add: double_eval power4_eq_xxxx)
  show "F2C (Fin t) = Fin (F2C_closed t)"
    using t by (simp add: F2C_def r F2C_closed_def) (simp add: double_eval power3_eq_cube)
  show "F4C dilog (Fin t) = Fin (F4C_closed d t)"
    using t assms(3)
    by (simp add: F4C_def r F4C_closed_def) (simp add: double_eval power3_eq_cube)
  show "F1N (Fin t) = Fin (F1N_closed t)"
    using t by (simp add: F1N_def r F1N_closed_def) (simp add: double_eval power4_eq_xxxx)
  show "F2N (Fin t) = Fin (F2N_closed t)"
    using t by (simp add: F2N_def r F2N_closed_def) (simp add: double_eval power3_eq_cube)
  show "F3N dilog (Fin t) = Fin (F3N_closed d t)"
    using t assms(3)
    by (simp add: F3N_def r F3N_closed_def) (simp add: double_eval power4_eq_xxxx)
  show "F4N dilog (Fin t) = Fin (F4N_closed d t)"
    using t assms(3)
    by (simp add: F4N_def r F4N_closed_def) (simp add: double_eval power3_eq_cube)
qed

subsection \<open>Limits of the closed forms at zero\<close>

lemma x_ln_x_tendsto: "((\<lambda>x :: real. x * ln x) \<longlongrightarrow> 0) (at_right 0)"
proof -
  have "((\<lambda>x :: real. - (ln x / x)) \<longlongrightarrow> - 0) at_top"
    by (intro tendsto_minus ln_x_over_x_tendsto_0)
  moreover have "\<forall>\<^sub>F x :: real in at_top. - (ln x / x) = inverse x * ln (inverse x)"
    using eventually_gt_at_top [of "0 :: real"]
    by eventually_elim (simp add: ln_div field_simps)
  ultimately have "((\<lambda>x :: real. inverse x * ln (inverse x)) \<longlongrightarrow> 0) at_top"
    using Lim_transform_eventually by fastforce
  then show ?thesis
    by (simp add: filterlim_at_right_to_top)
qed

lemma ident_tendsto: "((\<lambda>x :: real. x) \<longlongrightarrow> 0) (at_right 0)"
  by (rule tendsto_ident_at)

lemma F1C_closed_limit: "(F1C_closed \<longlongrightarrow> 4) (at_right 0)"
proof -
  have eq: "F1C_closed =
      (\<lambda>x. 2 / (x - 1) ^ 4 * (2 + 3 * x + 6 * (x * ln x) + x * x * (- 6 + x)))"
    by (simp add: fun_eq_iff F1C_closed_def algebra_simps)
  have "((\<lambda>x :: real. 2 / (x - 1) ^ 4 * (2 + 3 * x + 6 * (x * ln x) + x * x * (- 6 + x)))
          \<longlongrightarrow> 2 / (0 - 1) ^ 4 * (2 + 3 * 0 + 6 * 0 + 0 * 0 * (- 6 + 0))) (at_right 0)"
    by (intro tendsto_intros x_ln_x_tendsto ident_tendsto) simp
  then show ?thesis
    by (simp add: eq)
qed

lemma F1N_closed_limit: "(F1N_closed \<longlongrightarrow> 2) (at_right 0)"
proof -
  have eq: "F1N_closed =
      (\<lambda>x. 2 / (x - 1) ^ 4 * (1 - 6 * x + x * (3 * x - 6 * (x * ln x) + 2 * (x * x))))"
    by (simp add: fun_eq_iff F1N_closed_def algebra_simps)
  have "((\<lambda>x :: real.
            2 / (x - 1) ^ 4 * (1 - 6 * x + x * (3 * x - 6 * (x * ln x) + 2 * (x * x))))
          \<longlongrightarrow> 2 / (0 - 1) ^ 4 * (1 - 6 * 0 + 0 * (3 * 0 - 6 * 0 + 2 * (0 * 0))))
        (at_right 0)"
    by (intro tendsto_intros x_ln_x_tendsto ident_tendsto) simp
  then show ?thesis
    by (simp add: eq)
qed

lemma F2N_closed_limit: "(F2N_closed \<longlongrightarrow> 3) (at_right 0)"
proof -
  have eq: "F2N_closed = (\<lambda>x. 3 / (1 - x) ^ 3 * (1 + 2 * (x * ln x) - x * x))"
    by (simp add: fun_eq_iff F2N_closed_def algebra_simps)
  have "((\<lambda>x :: real. 3 / (1 - x) ^ 3 * (1 + 2 * (x * ln x) - x * x))
          \<longlongrightarrow> 3 / (1 - 0) ^ 3 * (1 + 2 * 0 - 0 * 0)) (at_right 0)"
    by (intro tendsto_intros x_ln_x_tendsto ident_tendsto) simp
  then show ?thesis
    by (simp add: eq)
qed

lemma F3N_closed_limit:
  assumes "((\<lambda>x. d (1 - x)) \<longlongrightarrow> D) (at_right 0)"
  shows "(F3N_closed d \<longlongrightarrow> 8 / 105) (at_right 0)"
proof -
  have eq: "F3N_closed d = (\<lambda>x. 4 / 105 / (x - 1) ^ 4 * (
       (1 - x) * (- 97 * (x * x) - 529 * x + 2)
       + 6 * x * (13 * x + 81) * (x * ln x)
       + 108 * x * (7 * x + 4) * d (1 - x)))"
    by (simp add: fun_eq_iff F3N_closed_def algebra_simps)
  have "((\<lambda>x :: real. 4 / 105 / (x - 1) ^ 4 * (
       (1 - x) * (- 97 * (x * x) - 529 * x + 2)
       + 6 * x * (13 * x + 81) * (x * ln x)
       + 108 * x * (7 * x + 4) * d (1 - x)))
          \<longlongrightarrow> 4 / 105 / (0 - 1) ^ 4 * (
       (1 - 0) * (- 97 * (0 * 0) - 529 * 0 + 2)
       + 6 * 0 * (13 * 0 + 81) * 0
       + 108 * 0 * (7 * 0 + 4) * D)) (at_right 0)"
    by (intro tendsto_intros x_ln_x_tendsto ident_tendsto assms) simp
  then show ?thesis
    by (simp add: eq)
qed

lemma F4N_closed_limit:
  assumes "((\<lambda>x. d (1 - x)) \<longlongrightarrow> D) (at_right 0)"
  shows "(F4N_closed d \<longlongrightarrow> - 3 / 4 * (- 9 + 6 * D)) (at_right 0)"
proof -
  have "((\<lambda>x :: real. - 2.25 / (1 - x) ^ 3 * (
       (x + 3) * (x * ln x + x - 1)
       + (6 * x + 2) * d (1 - x)))
          \<longlongrightarrow> - 2.25 / (1 - 0) ^ 3 * (
       (0 + 3) * (0 + 0 - 1)
       + (6 * 0 + 2) * D)) (at_right 0)"
    by (intro tendsto_intros x_ln_x_tendsto ident_tendsto assms) simp
  then have "((\<lambda>x :: real. - 2.25 / (1 - x) ^ 3 * (
       (x + 3) * (x * ln x + x - 1)
       + (6 * x + 2) * d (1 - x)))
          \<longlongrightarrow> - 3 / 4 * (- 9 + 6 * D)) (at_right 0)"
    by (rule tendsto_cong_limit) simp
  then show ?thesis
    unfolding F4N_closed_def [abs_def] .
qed

subsection \<open>The closed forms of \<open>F2C\<close> and \<open>F4C\<close> diverge at zero\<close>

lemma neg_ln_at_top: "LIM x at_right 0. - ln (x :: real) :> at_top"
  using ln_at_0 by (simp add: filterlim_uminus_at_top)

lemma F2C_closed_diverges: "LIM x at_right 0. F2C_closed x :> at_top"
proof -
  have a: "LIM x at_right 0. 2 * - ln (x :: real) :> at_top"
    by (rule filterlim_tendsto_pos_mult_at_top [OF tendsto_const _ neg_ln_at_top]) simp
  have "((\<lambda>x :: real. - 3 + x * (4 - x)) \<longlongrightarrow> - 3 + 0 * (4 - 0)) (at_right 0)"
    by (intro tendsto_intros ident_tendsto)
  then have b: "LIM x at_right 0. (- 3 + x * (4 - x)) + 2 * - ln (x :: real) :> at_top"
    by (rule filterlim_tendsto_add_at_top [OF _ a])
  have "((\<lambda>x :: real. 3 / (2 * (1 - x) ^ 3)) \<longlongrightarrow> 3 / (2 * (1 - 0) ^ 3)) (at_right 0)"
    by (intro tendsto_intros ident_tendsto) simp
  then have "LIM x at_right 0.
      3 / (2 * (1 - x) ^ 3) * ((- 3 + x * (4 - x)) + 2 * - ln (x :: real)) :> at_top"
    by (rule filterlim_tendsto_pos_mult_at_top [OF _ _ b]) simp
  moreover have "F2C_closed =
      (\<lambda>x. 3 / (2 * (1 - x) ^ 3) * ((- 3 + x * (4 - x)) + 2 * - ln x))"
    by (simp add: fun_eq_iff F2C_closed_def)
  ultimately show ?thesis
    by simp
qed

lemma F4C_closed_diverges:
  assumes "((\<lambda>x. d (1 - x)) \<longlongrightarrow> D) (at_right 0)"
  shows "LIM x at_right 0. F4C_closed d x :> at_bot"
proof -
  have "((\<lambda>x :: real. 4 + 4 * x - 2 * (x * x)) \<longlongrightarrow> 4 + 4 * 0 - 2 * (0 * 0)) (at_right 0)"
    by (intro tendsto_intros ident_tendsto)
  then have a: "LIM x at_right 0. (4 + 4 * x - 2 * (x * x)) * - ln (x :: real) :> at_top"
    by (rule filterlim_tendsto_pos_mult_at_top [OF _ _ neg_ln_at_top]) simp
  have "((\<lambda>x :: real. - (5 - 40 * x + 11 * (x * x)))
          \<longlongrightarrow> - (5 - 40 * 0 + 11 * (0 * 0))) (at_right 0)"
    by (intro tendsto_intros ident_tendsto)
  then have b: "LIM x at_right 0.
      - (5 - 40 * x + 11 * (x * x)) + (4 + 4 * x - 2 * (x * x)) * - ln (x :: real) :> at_top"
    by (rule filterlim_tendsto_add_at_top [OF _ a])
  have c: "LIM x at_right 0. - ln (x :: real) *
      (- (5 - 40 * x + 11 * (x * x)) + (4 + 4 * x - 2 * (x * x)) * - ln x) :> at_top"
    by (rule filterlim_at_top_mult_at_top [OF neg_ln_at_top b])
  have "((\<lambda>x. 8 * (x * x - 3 * x + 2) - 4 * (x * x - 2 * x + 9) * d (1 - x))
          \<longlongrightarrow> 8 * (0 * 0 - 3 * 0 + 2) - 4 * (0 * 0 - 2 * 0 + 9) * D) (at_right 0)"
    by (intro tendsto_intros ident_tendsto assms)
  then have e: "LIM x at_right 0.
      (8 * (x * x - 3 * x + 2) - 4 * (x * x - 2 * x + 9) * d (1 - x))
      + - ln x * (- (5 - 40 * x + 11 * (x * x)) + (4 + 4 * x - 2 * (x * x)) * - ln x)
      :> at_top"
    by (rule filterlim_tendsto_add_at_top [OF _ c])
  have "((\<lambda>x :: real. - 9 / (122 * (1 - x) ^ 3))
          \<longlongrightarrow> - 9 / (122 * (1 - 0) ^ 3)) (at_right 0)"
    by (intro tendsto_intros ident_tendsto) simp
  then have "LIM x at_right 0. - 9 / (122 * (1 - x) ^ 3) *
      ((8 * (x * x - 3 * x + 2) - 4 * (x * x - 2 * x + 9) * d (1 - x))
       + - ln x * (- (5 - 40 * x + 11 * (x * x)) + (4 + 4 * x - 2 * (x * x)) * - ln x))
      :> at_bot"
    by (rule filterlim_tendsto_neg_mult_at_bot [OF _ _ e]) simp
  moreover have "F4C_closed d = (\<lambda>x. - 9 / (122 * (1 - x) ^ 3) *
      ((8 * (x * x - 3 * x + 2) - 4 * (x * x - 2 * x + 9) * d (1 - x))
       + - ln x * (- (5 - 40 * x + 11 * (x * x)) + (4 + 4 * x - 2 * (x * x)) * - ln x)))"
    by (simp add: fun_eq_iff F4C_closed_def algebra_simps)
  ultimately show ?thesis
    by simp
qed

subsection \<open>The first argument past the zero check\<close>

lemma exp_1_bounds: "5 / 2 \<le> exp (1 :: real)" "exp (1 :: real) \<le> 3"
proof -
  show "5 / 2 \<le> exp (1 :: real)"
    using exp_lower_Taylor_quadratic [of "1 :: real"] by simp
  show "exp (1 :: real) \<le> 3"
    by (rule exp_le)
qed

lemma ln_eps_bounds:
  "- 40 \<le> ln (5 / 2251799813685248 :: real)" "ln (5 / 2251799813685248 :: real) \<le> - 30"
proof -
  have "exp (- 40 :: real) = inverse (exp 1 ^ 40)"
    using exp_of_nat_mult [of 40 "1 :: real"] by (simp add: exp_minus)
  also have "\<dots> \<le> inverse ((5 / 2) ^ 40)"
    by (intro le_imp_inverse_le power_mono exp_1_bounds) simp_all
  also have "\<dots> \<le> 5 / 2251799813685248"
    by (simp add: power_divide)
  finally show "- 40 \<le> ln (5 / 2251799813685248 :: real)"
    by (simp add: ln_ge_iff)
  have "(5 / 2251799813685248 :: real) \<le> inverse (3 ^ 30)"
    by simp
  also have "\<dots> \<le> inverse (exp 1 ^ 30)"
    by (intro le_imp_inverse_le power_mono exp_1_bounds) simp_all
  also have "\<dots> = exp (- 30 :: real)"
    using exp_of_nat_mult [of 30 "1 :: real"] by (simp add: exp_minus)
  finally have "ln (5 / 2251799813685248 :: real) \<le> ln (exp (- 30))"
    by (subst ln_le_cancel_iff) simp_all
  then show "ln (5 / 2251799813685248 :: real) \<le> - 30"
    by simp
qed

lemma F2C_eps: "Fin 25 < F2C eps"
  apply (simp add: F2C_def double_eval)
  apply (simp add: field_simps)
  apply (insert ln_eps_bounds)
  apply linarith
  done

lemma F4C_eps:
  assumes "dilog (Fin (1 - 5 / 2251799813685248)) = Fin v" and "\<bar>v\<bar> \<le> 2"
  shows "F4C dilog eps < Fin (- 100)"
proof -
  define L where "L = ln (5 / 2251799813685248 :: real)"
  have b: "- 40 \<le> L" "L \<le> - 30"
    using ln_eps_bounds by (simp_all add: L_def)
  have "(- L) * (- L) \<ge> 30 * 30"
    by (intro mult_mono) (use b in simp_all)
  then have sq: "900 \<le> L * L"
    by simp
  show ?thesis
    using assms(1)
    apply (simp add: F4C_def double_eval)
    apply (fold L_def)
    apply (simp add: field_simps)
    apply (insert b sq assms(2))
    apply linarith
    done
qed

text \<open>
  C3, as the code has it.  Let \<open>x\<close> pass the check \<open>is_zero(x, eps)\<close>, let \<open>t\<close>
  lie between \<open>eps\<close> and 0.9, let \<open>d\<close> be the real function that \<open>dilog\<close>
  computes, and let \<open>d(1 - u)\<close> tend to \<open>D\<close> for \<open>u\<close> tending to 0 from above.
  \<^item> \<open>F1C\<close>, \<open>F1N\<close>, \<open>F2N\<close>, \<open>F3N\<close> and \<open>F4N\<close> return at \<open>x\<close>, through the check,
    the constants 4, 2, 3, 8/105 and \<open>-3/4 * (-9 + PI2)\<close>; at \<open>t\<close> they return the
    value of their closed form; and the closed form tends to 4, 2, 3, 8/105 and
    \<open>-3/4 * (-9 + 6 * D)\<close> at 0.  The constant is the finite limit; for \<open>F4N\<close> it is
    the limit with the literal \<open>PI2 = 9.8696044010893586\<close> of the code standing for
    \<open>6 * D\<close>, which is \<open>pi\<^sup>2\<close> for the dilogarithm.
  \<^item> \<open>F2C\<close> and \<open>F4C\<close> have the same check and return 0 at \<open>x\<close>.  This is not a
    limit: their closed forms tend to \<open>+inf\<close> and to \<open>-inf\<close> at 0.
  \<^item> \<open>F3C\<close> and \<open>G3\<close> have no zero check, and do not give a finite value at 0.
\<close>

theorem zero_argument_limits:
  assumes "is_zero x eps"
    and "10 / 2 ^ 52 \<le> t" and "t \<le> 9 / 10"
    and "\<forall>s. dilog (Fin s) = Fin (d s)"
    and "((\<lambda>u. d (1 - u)) \<longlongrightarrow> D) (at_right 0)"
  shows "F1C x = 4 \<and> F1C (Fin t) = Fin (F1C_closed t)
         \<and> (F1C_closed \<longlongrightarrow> 4) (at_right 0)
       \<and> F1N x = 2 \<and> F1N (Fin t) = Fin (F1N_closed t)
         \<and> (F1N_closed \<longlongrightarrow> 2) (at_right 0)
       \<and> F2N x = 3 \<and> F2N (Fin t) = Fin (F2N_closed t)
         \<and> (F2N_closed \<longlongrightarrow> 3) (at_right 0)
       \<and> F3N dilog x = Fin (8 / 105) \<and> F3N dilog (Fin t) = Fin (F3N_closed d t)
         \<and> (F3N_closed d \<longlongrightarrow> 8 / 105) (at_right 0)
       \<and> F4N dilog x = Fin (- 3 / 4 * (- 9 + 9.8696044010893586))
         \<and> F4N dilog (Fin t) = Fin (F4N_closed d t)
         \<and> (F4N_closed d \<longlongrightarrow> - 3 / 4 * (- 9 + 6 * D)) (at_right 0)
       \<and> F2C x = 0 \<and> F2C (Fin t) = Fin (F2C_closed t)
         \<and> (LIM u at_right 0. F2C_closed u :> at_top)
       \<and> F4C dilog x = 0 \<and> F4C dilog (Fin t) = Fin (F4C_closed d t)
         \<and> (LIM u at_right 0. F4C_closed d u :> at_bot)
       \<and> G3 0 = PInf \<and> F3C dilog 0 = NaN"
proof -
  have checks: "F1C x = 4 \<and> F2C x = 0 \<and> F4C dilog x = 0 \<and> F1N x = 2 \<and> F2N x = 3
       \<and> F3N dilog x = Fin (8 / 105)
       \<and> F4N dilog x = Fin (- 3 / 4 * (- 9 + 9.8696044010893586))"
    using assms(1)
    by (simp add: F1C_def F2C_def F4C_def F1N_def F2N_def F3N_def F4N_def)
       (simp add: zero_double_def one_double_def numeral_double power_double minus_double_def)
  note forms = closed_forms_computed [OF assms(2,3,4)]
  have "G3 0 = PInf"
    by (simp add: G3_def double_eval)
  moreover have "F3C dilog 0 = NaN"
    by (simp add: F3C_def double_eval)
  ultimately show ?thesis
    using checks forms F1C_closed_limit F1N_closed_limit F2N_closed_limit
      F3N_closed_limit [OF assms(5)] F4N_closed_limit [OF assms(5)]
      F2C_closed_diverges F4C_closed_diverges [OF assms(5)]
    by simp
qed

text \<open>
  The theorem at \<open>x = 0\<close> and \<open>t = 1/2\<close>, with the constant \<open>PI2 / 6\<close> for
  \<open>dilog\<close>: then \<open>6 * D\<close> is \<open>PI2\<close>, and the limit of the closed form of \<open>F4N\<close>
  is the constant that \<open>F4N\<close> returns.
\<close>

theorem zero_argument_limits_witness:
  "is_zero 0 eps \<and> (10 / 2 ^ 52 :: real) \<le> 1 / 2 \<and> (1 / 2 :: real) \<le> 9 / 10
   \<and> ((\<lambda>u :: real. (\<lambda>s. 9.8696044010893586 / 6) (1 - u))
        \<longlongrightarrow> 9.8696044010893586 / 6) (at_right 0)
   \<and> F1C 0 = 4 \<and> F1C (Fin (1 / 2)) = Fin (F1C_closed (1 / 2))
     \<and> (F1C_closed \<longlongrightarrow> 4) (at_right 0)
   \<and> F1N 0 = 2 \<and> F1N (Fin (1 / 2)) = Fin (F1N_closed (1 / 2))
     \<and> (F1N_closed \<longlongrightarrow> 2) (at_right 0)
   \<and> F2N 0 = 3 \<and> F2N (Fin (1 / 2)) = Fin (F2N_closed (1 / 2))
     \<and> (F2N_closed \<longlongrightarrow> 3) (at_right 0)
   \<and> F3N (\<lambda>v. Fin (9.8696044010893586 / 6)) 0 = Fin (8 / 105)
     \<and> (F3N_closed (\<lambda>s. 9.8696044010893586 / 6) \<longlongrightarrow> 8 / 105) (at_right 0)
   \<and> F4N (\<lambda>v. Fin (9.8696044010893586 / 6)) 0 = Fin (- 3 / 4 * (- 9 + 9.8696044010893586))
     \<and> (F4N_closed (\<lambda>s. 9.8696044010893586 / 6)
          \<longlongrightarrow> - 3 / 4 * (- 9 + 9.8696044010893586)) (at_right 0)
   \<and> F2C 0 = 0 \<and> F2C (Fin (1 / 2)) = Fin (F2C_closed (1 / 2))
     \<and> (LIM u at_right 0. F2C_closed u :> at_top)
   \<and> F4C (\<lambda>v. Fin (9.8696044010893586 / 6)) 0 = 0
     \<and> (LIM u at_right 0. F4C_closed (\<lambda>s. 9.8696044010893586 / 6) u :> at_bot)
   \<and> G3 0 = PInf \<and> F3C (\<lambda>v. Fin (9.8696044010893586 / 6)) 0 = NaN"
proof -
  have h: "is_zero 0 eps" "(10 / 2 ^ 52 :: real) \<le> 1 / 2" "(1 / 2 :: real) \<le> 9 / 10"
    by (simp_all add: double_eval)
  have d: "\<forall>s. (\<lambda>v. Fin (9.8696044010893586 / 6)) (Fin s)
      = Fin ((\<lambda>s. 9.8696044010893586 / 6) s)"
    by simp
  have l: "((\<lambda>u :: real. (\<lambda>s. 9.8696044010893586 / 6) (1 - u))
      \<longlongrightarrow> 9.8696044010893586 / 6) (at_right 0)"
    by simp
  show ?thesis
    using zero_argument_limits [OF h d l] h by simp
qed

text \<open>
  What does not hold.  \<open>G3\<close> and \<open>G4\<close> have no zero check: \<open>G3(0)\<close> is \<open>+inf\<close>
  and \<open>G4(0)\<close> is NaN.  \<open>F2C\<close> and \<open>F4C\<close> return 0 at 0, and at \<open>eps\<close>, the first
  argument that the check lets through, \<open>F2C\<close> is above 25 and \<open>F4C\<close> is below -100.
  For \<open>F4C\<close> the statement takes \<open>dilog\<close> at its value 1.6449340668482264 near 1;
  lemma \<open>F4C_eps\<close> gives the bound for every value of \<open>dilog(1 - eps)\<close> between -2
  and 2.
\<close>

theorem zero_limit_counterexample:
  "G3 0 = PInf \<and> G4 0 = NaN
   \<and> F2C 0 = 0 \<and> Fin 25 < F2C eps
   \<and> F4C (\<lambda>v. 1.6449340668482264) 0 = 0
   \<and> F4C (\<lambda>v. 1.6449340668482264) eps < Fin (- 100)"
proof -
  have "F4C (\<lambda>v. 1.6449340668482264) eps < Fin (- 100)"
    by (rule F4C_eps [where v = "1.6449340668482264"]) (simp_all add: double_eval)
  moreover have "G3 0 = PInf \<and> G4 0 = NaN \<and> F2C 0 = 0
      \<and> F4C (\<lambda>v. 1.6449340668482264) 0 = 0"
    by (simp add: G3_def G4_def F2C_def F4C_def double_eval)
  ultimately show ?thesis
    using F2C_eps by simp
qed

section \<open>The generic branch of \<open>Fa\<close> and \<open>Fb\<close> (C4)\<close>








section \<open>Symmetry (C5)\<close>

lemma sort2_commute: "x \<noteq> NaN \<Longrightarrow> y \<noteq> NaN \<Longrightarrow> sort2 y x = sort2 x y"
  by (cases x; cases y) (auto simp add: sort2_def)

lemma sort3_swap12:
  "x \<noteq> NaN \<Longrightarrow> y \<noteq> NaN \<Longrightarrow> z \<noteq> NaN \<Longrightarrow> sort3 y x z = sort3 x y z"
  by (cases x; cases y; cases z) (auto simp add: sort3_def)

lemma sort3_swap23:
  "x \<noteq> NaN \<Longrightarrow> y \<noteq> NaN \<Longrightarrow> z \<noteq> NaN \<Longrightarrow> sort3 x z y = sort3 x y z"
  by (cases x; cases y; cases z) (auto simp add: sort3_def)

lemma Phi_swap12:
  "x \<noteq> NaN \<Longrightarrow> y \<noteq> NaN \<Longrightarrow> z \<noteq> NaN \<Longrightarrow> Phi d c y x z = Phi d c x y z"
  using sort3_swap12 [of x y z] by (simp add: Phi_def)

lemma Phi_swap23:
  "x \<noteq> NaN \<Longrightarrow> y \<noteq> NaN \<Longrightarrow> z \<noteq> NaN \<Longrightarrow> Phi d c x z y = Phi d c x y z"
  using sort3_swap23 [of x y z] by (simp add: Phi_def)

lemma Fa_commute: "0 \<le> x \<Longrightarrow> 0 \<le> y \<Longrightarrow> Fa y x = Fa x y"
  by (simp only: Fa_def sort2_commute [OF nonneg_not_NaN nonneg_not_NaN, of x y]
      disj_commute [of "y < 0" "x < 0"])

lemma Fb_commute: "0 \<le> x \<Longrightarrow> 0 \<le> y \<Longrightarrow> Fb y x = Fb x y"
  by (simp only: Fb_def sort2_commute [OF nonneg_not_NaN nonneg_not_NaN, of x y]
      disj_commute [of "y < 0" "x < 0"])

text \<open>
  C5.  For non-negative arguments, \<open>Phi(x, y, z)\<close> has the same value at each of the
  six orders of its arguments, and \<open>Fa\<close> and \<open>Fb\<close> have the same result (value and
  diagnostics) at \<open>(x, y)\<close> and \<open>(y, x)\<close>: each function sorts its arguments first.
\<close>

theorem argument_order_invariance:
  assumes "0 \<le> x" and "0 \<le> y" and "0 \<le> z"
  shows "Phi dilog clausen_2 x z y = Phi dilog clausen_2 x y z
       \<and> Phi dilog clausen_2 y x z = Phi dilog clausen_2 x y z
       \<and> Phi dilog clausen_2 y z x = Phi dilog clausen_2 x y z
       \<and> Phi dilog clausen_2 z x y = Phi dilog clausen_2 x y z
       \<and> Phi dilog clausen_2 z y x = Phi dilog clausen_2 x y z
       \<and> Fa y x = Fa x y \<and> Fb y x = Fb x y"
proof -
  note n = assms [THEN nonneg_not_NaN]
  have a: "Phi dilog clausen_2 x z y = Phi dilog clausen_2 x y z"
    using n by (simp add: Phi_swap23)
  have b: "Phi dilog clausen_2 y x z = Phi dilog clausen_2 x y z"
    using n by (simp add: Phi_swap12)
  have c: "Phi dilog clausen_2 y z x = Phi dilog clausen_2 x y z"
    using n b by (simp add: Phi_swap23 [of y x z])
  have d: "Phi dilog clausen_2 z x y = Phi dilog clausen_2 x y z"
    using n a by (simp add: Phi_swap12 [of x z y])
  have e: "Phi dilog clausen_2 z y x = Phi dilog clausen_2 x y z"
    using n c by (simp add: Phi_swap12 [of y z x])
  from a b c d e assms show ?thesis
    by (simp add: Fa_commute Fb_commute)
qed

theorem argument_order_invariance_witness:
  "(0 :: double) \<le> 1 \<and> (0 :: double) \<le> 2 \<and> (0 :: double) \<le> 3
   \<and> Phi id id 1 3 2 = Phi id id 1 2 3
   \<and> Phi id id 2 1 3 = Phi id id 1 2 3
   \<and> Phi id id 2 3 1 = Phi id id 1 2 3
   \<and> Phi id id 3 1 2 = Phi id id 1 2 3
   \<and> Phi id id 3 2 1 = Phi id id 1 2 3
   \<and> Fa 2 1 = Fa 1 2 \<and> Fb 2 1 = Fb 1 2"
proof -
  have h: "(0 :: double) \<le> 1" "(0 :: double) \<le> 2" "(0 :: double) \<le> 3"
    by (simp_all add: double_eval)
  show ?thesis
    using argument_order_invariance [OF h, of id id] h by blast
qed

section \<open>Negative arguments (C6)\<close>

text \<open>
  C6.  Called with a negative argument, each of \<open>Fa\<close>, \<open>Fb\<close>, \<open>f_PS\<close>, \<open>f_S\<close>,
  \<open>f_sferm\<close>, \<open>F1\<close>, \<open>F1t\<close>, \<open>F2\<close> and \<open>F3\<close> reports one diagnostic saying that
  the argument must not be negative, and returns NaN; it returns, and throws nothing.
  \<open>F1t\<close> has no check of its own: its diagnostic is the one of \<open>f_PS\<close>, which it
  calls.
\<close>

theorem negative_argument_reports:
  "(x < 0 \<or> y < 0 \<longrightarrow>
      Fa x y = ([''ERROR: Fa: x and y must not be negative!''], NaN)
    \<and> Fb x y = ([''ERROR: Fb: x and y must not be negative!''], NaN))
 \<and> (z < 0 \<longrightarrow>
      f_PS dilog clausen_2 z = ([''ERROR: f_PS: z must not be negative!''], NaN)
    \<and> f_S dilog clausen_2 z = ([''ERROR: f_S: z must not be negative!''], NaN)
    \<and> f_sferm dilog clausen_2 z = ([''ERROR: f_sferm: z must not be negative!''], NaN)
    \<and> F1 dilog clausen_2 z = ([''ERROR: F1: w must not be negative!''], NaN)
    \<and> F1t dilog clausen_2 z = ([''ERROR: f_PS: z must not be negative!''], NaN)
    \<and> F2 dilog clausen_2 z = ([''ERROR: F2: w must not be negative!''], NaN)
    \<and> F3 dilog clausen_2 z = ([''ERROR: F3: w must not be negative!''], NaN))"
  by (auto simp add: Fa_def Fb_def f_PS_def f_S_def f_sferm_def F1_def F1t_def F2_def F3_def
      ERROR_def double_eval)

theorem negative_argument_reports_witness:
  "(- 1 :: double) < 0
   \<and> Fa (- 1) 1 = ([''ERROR: Fa: x and y must not be negative!''], NaN)
   \<and> Fb 1 (- 1) = ([''ERROR: Fb: x and y must not be negative!''], NaN)
   \<and> f_PS id id (- 1) = ([''ERROR: f_PS: z must not be negative!''], NaN)
   \<and> f_S id id (- 1) = ([''ERROR: f_S: z must not be negative!''], NaN)
   \<and> f_sferm id id (- 1) = ([''ERROR: f_sferm: z must not be negative!''], NaN)
   \<and> F1 id id (- 1) = ([''ERROR: F1: w must not be negative!''], NaN)
   \<and> F1t id id (- 1) = ([''ERROR: f_PS: z must not be negative!''], NaN)
   \<and> F2 id id (- 1) = ([''ERROR: F2: w must not be negative!''], NaN)
   \<and> F3 id id (- 1) = ([''ERROR: F3: w must not be negative!''], NaN)"
proof -
  have h: "(- 1 :: double) < 0"
    by (simp add: double_eval)
  show ?thesis
    using negative_argument_reports [of "- 1" 1 "- 1" id id]
      negative_argument_reports [of 1 "- 1" "- 1" id id] h
    by blast
qed

section \<open>Exact values (C7)\<close>

text \<open>
  C7.  \<open>F1C(0) = 4\<close>, \<open>F2C(0) = 0\<close>, \<open>F1N(0) = 2\<close>, \<open>F2N(0) = 3\<close>,
  \<open>F3N(0) = 8/105\<close>, \<open>f_PS(0) = 0\<close>, \<open>f_PS(0.25) = 1.3862943611198906\<close>,
  \<open>F1(0.25) = -0.5\<close>, \<open>F2(0.25) = -0.38629436111989062\<close> and \<open>F3(0.25) = 19/4\<close>,
  with no diagnostic.  Each value is the constant of the branch that tests for that
  argument; the two decimal constants are the literals that the code gives for
  \<open>Log[4]\<close> and \<open>1 - Log[4]\<close>.
\<close>

theorem exact_special_values:
  "F1C 0 = 4.0 \<and> F2C 0 = 0.0 \<and> F1N 0 = 2.0 \<and> F2N 0 = 3.0 \<and> F3N dilog 0 = 8 / 105
   \<and> f_PS dilog clausen_2 0 = ([], 0)
   \<and> f_PS dilog clausen_2 0.25 = ([], 1.3862943611198906)
   \<and> F1 dilog clausen_2 0.25 = ([], - 0.5)
   \<and> F2 dilog clausen_2 0.25 = ([], - 0.38629436111989062)
   \<and> F3 dilog clausen_2 0.25 = ([], 19 / 4)"
  by (simp add: F1C_def F2C_def F1N_def F2N_def F3N_def f_PS_def F1_def F2_def F3_def
      double_eval)

section \<open>\<open>Phi\<close> at three equal arguments (C8)\<close>

text \<open>
  C8, as the code has it.  \<open>Phi(x, x, x)\<close> has \<open>u = v = 1\<close> and
  \<open>lambda_2(1, 1) = -3\<close>; \<open>phi_uv\<close> returns the constant 2.343907238689459 of the
  fully degenerate branch of \<open>phi_neg\<close>, and \<open>Phi\<close> multiplies it, from left to
  right, by \<open>z\<close>, by \<open>lambda_2(u, v)\<close> and by 1/2.  For every \<open>x\<close> from \<open>DBL_MIN\<close>
  to \<open>2^1021\<close> the result is the finite value \<open>2.343907238689459 * x * (-3) / 2\<close>,
  that is \<open>-3.5158608580341885 * x\<close>, and the products \<open>2.343907238689459 * x\<close> and
  \<open>2.343907238689459 * x * (-3)\<close> that the code forms on the way lie between
  \<open>DBL_MIN\<close> and \<open>DBL_MAX\<close> in magnitude: nothing overflows or leaves the normal
  range.  Above \<open>2^1021\<close> the second product can exceed \<open>DBL_MAX\<close>, and the statement
  is not made there.
\<close>

theorem Phi_equal_arguments:
  assumes "DBL_MIN \<le> x" and "x \<le> 2 ^ 1021"
  shows "Phi dilog clausen_2 (Fin x) (Fin x) (Fin x) = Fin (2.343907238689459 * x * (- 3) / 2)
       \<and> DBL_MIN \<le> 2.343907238689459 * x
       \<and> \<bar>2.343907238689459 * x * (- 3)\<bar> \<le> DBL_MAX"
proof -
  have pos: "0 < x"
    using assms(1) by (simp add: DBL_MIN_def)
  have s: "sort3 (Fin x) (Fin x) (Fin x) = (Fin x, Fin x, Fin x)"
    by (simp add: sort3_def)
  have l: "lambda_2 (Fin 1) (Fin 1) = Fin (- 3)"
    by (simp add: lambda_2_def double_eval)
  have p: "phi_uv dilog clausen_2 (Fin 1) (Fin 1) = Fin 2.343907238689459"
    by (simp add: phi_uv_def l phi_neg_def double_eval)
  have v: "Phi dilog clausen_2 (Fin x) (Fin x) (Fin x) = Fin (2.343907238689459 * x * (- 3) / 2)"
    using pos by (simp add: Phi_def s l p numeral_double)
  have lo: "DBL_MIN \<le> 2.343907238689459 * x"
    using assms(1) pos by simp
  have "2.343907238689459 * x * 3 \<le> 2.343907238689459 * 2 ^ 1021 * 3"
    using assms(2) by simp
  also have "\<dots> \<le> DBL_MAX"
    by (simp add: DBL_MAX_def)
  finally have hi: "\<bar>2.343907238689459 * x * (- 3)\<bar> \<le> DBL_MAX"
    using pos by (simp add: abs_mult)
  from v lo hi show ?thesis
    by simp
qed

theorem Phi_equal_arguments_witness:
  "DBL_MIN \<le> 2 \<and> (2 :: real) \<le> 2 ^ 1021 \<and> Phi id id 2 2 2 = Fin (- 7.031721716068377)"
proof -
  have h: "DBL_MIN \<le> 2" "(2 :: real) \<le> 2 ^ 1021"
    by (simp_all add: DBL_MIN_def)
  show ?thesis
    using Phi_equal_arguments [OF h, of id id] h by (simp add: double_eval)
qed

theorem Phi_equal_arguments_counterexample:
  "Phi id id 1 1 1 = Fin (- 3.5158608580341885) \<and> Phi id id 1 1 1 < 0
   \<and> Phi id id 1 1 1 \<noteq> 2.343907238689459 * 1"
  by (simp add: Phi_def sort3_def phi_uv_def phi_neg_def lambda_2_def double_eval)

section \<open>Continuity across the near-equal band of \<open>Fa\<close> (C9)\<close>

lemma ln_10_bounds: "2 \<le> ln (10 :: real)" "ln (10 :: real) \<le> 3"
proof -
  have "exp (2 :: real) = exp 1 * exp 1"
    by (simp add: exp_add [symmetric])
  also have "\<dots> \<le> 3 * 3"
    by (intro mult_mono exp_1_bounds) simp_all
  finally have "exp (2 :: real) \<le> 10"
    by simp
  then show "2 \<le> ln (10 :: real)"
    by (simp add: ln_ge_iff)
  have "(10 :: real) \<le> (5 / 2) * (5 / 2) * (5 / 2)"
    by simp
  also have "\<dots> \<le> exp 1 * exp 1 * exp (1 :: real)"
    by (intro mult_mono exp_1_bounds) simp_all
  also have "\<dots> = exp (3 :: real)"
    by (simp add: exp_add [symmetric])
  finally have "ln (10 :: real) \<le> ln (exp 3)"
    by (simp del: ln_exp)
  then show "ln (10 :: real) \<le> 3"
    by simp
qed

lemma ln_x_bounds: "- 24 \<le> ln (1 / 100000000 :: real)" "ln (1 / 100000000 :: real) \<le> - 16"
proof -
  have "ln (1 / 100000000 :: real) = - 8 * ln 10"
    using ln_realpow [of "10 :: real" 8] by (simp add: ln_div)
  then show "- 24 \<le> ln (1 / 100000000 :: real)" "ln (1 / 100000000 :: real) \<le> - 16"
    using ln_10_bounds by simp_all
qed

lemma ln_y_bounds: "- 9 \<le> ln (501 / 500000 :: real)" "ln (501 / 500000 :: real) \<le> 0"
proof -
  have "ln (1 / 1000 :: real) \<le> ln (501 / 500000)"
    by (subst ln_le_cancel_iff) simp_all
  moreover have "ln (1 / 1000 :: real) = - 3 * ln 10"
    using ln_realpow [of "10 :: real" 3] by (simp add: ln_div)
  ultimately show "- 9 \<le> ln (501 / 500000 :: real)"
    using ln_10_bounds by linarith
  show "ln (501 / 500000 :: real) \<le> 0"
    by simp
qed

lemma Fa_inside_band: "Fa 0.00000001 0.001001 = ([], Fax 0.00000001 0.001001)"
  by (simp add: Fa_def sort2_def double_eval)

lemma Fa_outside_band:
  "Fa 0.00000001 0.001002
     = ([], - (G3 0.00000001 - G3 0.001002) / (0.00000001 - 0.001002))"
  by (simp add: Fa_def sort2_def double_eval)

lemma Fax_inside_value:
  "\<exists>v. Fax 0.00000001 0.001001 = Fin v \<and> 10 ^ 17 < v \<and> v < 10 ^ 18"
  apply (simp add: Fax_def double_eval)
  apply (intro conjI)
   apply (simp_all add: field_simps)
   apply (insert ln_x_bounds)
   apply linarith+
  done

lemma quotient_outside_value:
  "\<exists>v. - (G3 0.00000001 - G3 0.001002) / (0.00000001 - 0.001002) = Fin v
       \<and> 0 < v \<and> v < 10 ^ 5"
  apply (simp add: G3_def double_eval)
  apply (intro conjI)
   apply (simp_all add: field_simps)
   apply (insert ln_x_bounds ln_y_bounds)
   apply linarith+
  done

text \<open>
  C9 fails on \<open>Fa\<close>.  Its near-equal band is \<open>is_equal(x, y, 0.001)\<close>, that is
  \<open>|x - y| < 0.001 * (1 + max(|x|, |y|))\<close>: for small arguments this is an absolute
  distance of 0.001, however small \<open>x\<close> is, while \<open>Fax\<close> expands in powers of
  \<open>(y - x)\<close> divided by powers of \<open>x\<close>.  At \<open>x = 1e-8\<close> the pair
  \<open>(x, 1.001e-3)\<close> lies inside the band and \<open>(x, 1.002e-3)\<close> outside.  Inside,
  \<open>Fa\<close> returns the expansion \<open>Fax\<close>, between \<open>10^17\<close> and \<open>10^18\<close>; outside, it
  returns the quotient of \<open>G3\<close>, between 0 and \<open>10^5\<close>.  The two branches differ by
  a factor of more than \<open>10^12\<close> across the edge of the band.
\<close>

theorem Fa_band_edge_jump:
  "is_equal 0.00000001 0.001001 0.001 \<and> \<not> is_equal 0.00000001 0.001002 0.001
   \<and> Fa 0.00000001 0.001001 = ([], Fax 0.00000001 0.001001)
   \<and> Fa 0.00000001 0.001002
       = ([], - (G3 0.00000001 - G3 0.001002) / (0.00000001 - 0.001002))
   \<and> Fin (10 ^ 17) < snd (Fa 0.00000001 0.001001)
   \<and> snd (Fa 0.00000001 0.001001) < Fin (10 ^ 18)
   \<and> Fin 0 < snd (Fa 0.00000001 0.001002)
   \<and> snd (Fa 0.00000001 0.001002) < Fin (10 ^ 5)"
proof -
  have band: "is_equal 0.00000001 0.001001 0.001" "\<not> is_equal 0.00000001 0.001002 0.001"
    by (simp_all add: double_eval)
  obtain v where v: "Fax 0.00000001 0.001001 = Fin v" "10 ^ 17 < v" "v < 10 ^ 18"
    using Fax_inside_value by blast
  obtain w where w: "- (G3 0.00000001 - G3 0.001002) / (0.00000001 - 0.001002) = Fin w"
    "0 < w" "w < 10 ^ 5"
    using quotient_outside_value by blast
  show ?thesis
    using band v w by (simp add: Fa_inside_band Fa_outside_band)
qed

section \<open>\<open>Gn\<close> (C10)\<close>

text \<open>
  C10.  \<open>Gn\<close> of the older copy returns NaN for every \<open>wa\<close>, \<open>wb\<close> and \<open>n\<close>,
  whatever the integration does: the value that \<open>integrate\<close> returns is not assigned
  to \<open>res\<close>, and an exception is swallowed.
\<close>

theorem Gn_returns_NaN: "Gn odeint_integrate wa wb n = NaN"
  by (simp add: Gn_def split: sum.split)

end
